theory Spec2Isabelle
  imports Complex_Main
begin

section \<open>Python values, exceptions and expression evaluation\<close>

text \<open>
  The three operations of \<^verbatim>\<open>SimpleCarpoolComparison\<close> inspect the run-time type of
  their arguments, so the arguments are modelled as dynamically typed values.  A Python
  \<^verbatim>\<open>float\<close> is modelled by a real number: arithmetic and the functions of the
  \<^verbatim>\<open>math\<close> module are exact, and rounding, overflow to infinity and NaN are outside
  the model.  A raised exception is the left summand of the result.
\<close>

datatype pyval =
    PyFloat real
  | PyInt int
  | PyBool bool
  | PyStr string
  | PyNone
  | PyTuple "pyval list"

datatype pytype = TFloat | TInt | TBool | TStr | TNoneType | TTuple

datatype pyerr = TypeError string | IndexError string | ValueError string

fun type_of :: "pyval \<Rightarrow> pytype" where
  "type_of (PyFloat _) = TFloat"
| "type_of (PyInt _) = TInt"
| "type_of (PyBool _) = TBool"
| "type_of (PyStr _) = TStr"
| "type_of PyNone = TNoneType"
| "type_of (PyTuple _) = TTuple"

text \<open>\<^verbatim>\<open>e[i]\<close> for a constant index \<open>i \<ge> 0\<close>; an exception raised by \<^verbatim>\<open>e\<close> propagates.\<close>

fun subscript :: "pyerr + pyval \<Rightarrow> nat \<Rightarrow> pyerr + pyval" where
  "subscript (Inl e) i = Inl e"
| "subscript (Inr (PyTuple xs)) i =
     (if i < length xs then Inr (xs ! i) else Inl (IndexError ''tuple index out of range''))"
| "subscript (Inr (PyStr s)) i =
     (if i < length s then Inr (PyStr [s ! i]) else Inl (IndexError ''string index out of range''))"
| "subscript (Inr _) i = Inl (TypeError ''object is not subscriptable'')"

text \<open>\<^verbatim>\<open>len(e)\<close>.\<close>

fun len :: "pyerr + pyval \<Rightarrow> pyerr + nat" where
  "len (Inl e) = Inl e"
| "len (Inr (PyTuple xs)) = Inr (length xs)"
| "len (Inr (PyStr s)) = Inr (length s)"
| "len (Inr _) = Inl (TypeError ''object has no len()'')"

text \<open>\<^verbatim>\<open>type(e) is not T\<close> and \<^verbatim>\<open>len(e) is not n\<close> (for the small integer \<open>n\<close>).\<close>

fun type_is_not :: "pyerr + pyval \<Rightarrow> pytype \<Rightarrow> pyerr + bool" where
  "type_is_not (Inl e) T = Inl e"
| "type_is_not (Inr v) T = Inr (type_of v \<noteq> T)"

fun len_is_not :: "pyerr + pyval \<Rightarrow> nat \<Rightarrow> pyerr + bool" where
  "len_is_not e n = (case len e of Inl ex \<Rightarrow> Inl ex | Inr k \<Rightarrow> Inr (k \<noteq> n))"

text \<open>
  One arm of an \<^verbatim>\<open>if\<close>/\<^verbatim>\<open>elif\<close> chain whose body raises: the condition is
  evaluated (and may itself raise), the exception \<open>ex\<close> is raised when it holds, and
  otherwise control passes to the rest of the chain.
\<close>

definition elif_raise :: "pyerr + bool \<Rightarrow> pyerr \<Rightarrow> pyerr + 'a \<Rightarrow> pyerr + 'a" where
  "elif_raise cond ex rest =
     (case cond of Inl e \<Rightarrow> Inl e | Inr b \<Rightarrow> if b then Inl ex else rest)"

text \<open>Sequencing: the continuation runs on the value unless an exception was raised.\<close>

definition py_bind :: "pyerr + 'a \<Rightarrow> ('a \<Rightarrow> pyerr + 'b) \<Rightarrow> pyerr + 'b" where
  "py_bind m f = (case m of Inl e \<Rightarrow> Inl e | Inr v \<Rightarrow> f v)"

text \<open>Reading a value that the preceding checks have found to be a \<^verbatim>\<open>float\<close>.\<close>

fun as_float :: "pyerr + pyval \<Rightarrow> pyerr + real" where
  "as_float (Inl e) = Inl e"
| "as_float (Inr (PyFloat r)) = Inr r"
| "as_float (Inr (PyInt i)) = Inr (of_int i)"
| "as_float (Inr (PyBool b)) = Inr (if b then 1 else 0)"
| "as_float (Inr _) = Inl (TypeError ''must be real number'')"

section \<open>The math module\<close>

definition radians :: "real \<Rightarrow> real" where
  "radians x = x * (pi / 180)"

text \<open>\<^verbatim>\<open>math.sqrt\<close> raises \<^verbatim>\<open>ValueError\<close> on a negative argument.\<close>

definition math_sqrt :: "real \<Rightarrow> pyerr + real" where
  "math_sqrt x = (if x < 0 then Inl (ValueError ''math domain error'') else Inr (sqrt x))"

text \<open>\<^verbatim>\<open>math.atan2(y, x)\<close>: the angle of the point \<open>(x, y)\<close>, in \<open>(-\<pi>, \<pi>]\<close>.\<close>

definition atan2 :: "real \<Rightarrow> real \<Rightarrow> real" where
  "atan2 y x =
     (if 0 < x then arctan (y / x)
      else if x < 0 \<and> 0 \<le> y then arctan (y / x) + pi
      else if x < 0 \<and> y < 0 then arctan (y / x) - pi
      else if 0 < y then pi / 2
      else if y < 0 then - (pi / 2)
      else 0)"

section \<open>The class SimpleCarpoolComparison\<close>

definition equatorial_radius_kilometers :: real where
  "equatorial_radius_kilometers = 6378.1"

definition polar_radius_kilometers :: real where
  "polar_radius_kilometers = 6356.8"

definition volumetric_mean_radius_kilometers :: real where
  "volumetric_mean_radius_kilometers = 6371.0"

subsection \<open>dist\<close>

definition invalid_dist :: string where
  "invalid_dist = ''Invalid input to dist! ''"

text \<open>
  The method \<^verbatim>\<open>dist\<close> is named \<open>dist_km\<close> here, since \<open>dist\<close> is the metric of
  the library.  \<open>dist_body\<close> is its body after the input check, on the four components.
\<close>

definition dist_body :: "real \<Rightarrow> real \<Rightarrow> real \<Rightarrow> real \<Rightarrow> pyerr + real" where
  "dist_body v10 v11 v20 v21 =
     (let R = volumetric_mean_radius_kilometers;
          v1a = radians v10;
          v2a = radians v20;
          lad = radians (v20 - v10);
          lod = radians (v21 - v11);
          a = sin (lad / 2.0) * sin (lad / 2.0) +
              cos v1a * cos v2a *
              sin (lod / 2.0) * sin (lod / 2.0)
      in py_bind (math_sqrt a) (\<lambda>sa.
         py_bind (math_sqrt (1.0 - a)) (\<lambda>sb.
           let c = 2.0 * atan2 sa sb;
               d = R * c
           in Inr d)))"

text \<open>
  The value that the body binds to \<^verbatim>\<open>a\<close> (the square of half the chord length),
  as a function of the four components.
\<close>

definition half_chord_length_squared :: "real \<Rightarrow> real \<Rightarrow> real \<Rightarrow> real \<Rightarrow> real" where
  "half_chord_length_squared v10 v11 v20 v21 =
     sin (radians (v20 - v10) / 2.0) * sin (radians (v20 - v10) / 2.0) +
     cos (radians v10) * cos (radians v20) *
     sin (radians (v21 - v11) / 2.0) * sin (radians (v21 - v11) / 2.0)"

definition dist_km :: "pyval \<Rightarrow> pyval \<Rightarrow> pyerr + real" where
  "dist_km v1 v2 =
     elif_raise (type_is_not (Inr v1) TTuple)
       (TypeError (invalid_dist @ ''Expected tuple in arg[0]'')) (
     elif_raise (len_is_not (Inr v1) 2)
       (TypeError (invalid_dist @ ''Incorrect tuple size in arg[0]'')) (
     elif_raise (type_is_not (subscript (Inr v1) 0) TFloat)
       (TypeError (invalid_dist @ ''Expected float in arg[0][0]'')) (
     elif_raise (type_is_not (subscript (Inr v1) 1) TFloat)
       (TypeError (invalid_dist @ ''Expected float in arg[0][1]'')) (
     elif_raise (type_is_not (Inr v2) TTuple)
       (TypeError (invalid_dist @ ''Expected tuple in arg[1]'')) (
     elif_raise (len_is_not (Inr v2) 2)
       (TypeError (invalid_dist @ ''Incorrect tuple size in arg[1]'')) (
     elif_raise (type_is_not (subscript (Inr v2) 0) TFloat)
       (TypeError (invalid_dist @ ''Expected float in arg[1][0]'')) (
     elif_raise (type_is_not (subscript (Inr v2) 1) TFloat)
       (TypeError (invalid_dist @ ''Expected float in arg[1][1]'')) (
     py_bind (as_float (subscript (Inr v1) 0)) (\<lambda>v10.
     py_bind (as_float (subscript (Inr v1) 1)) (\<lambda>v11.
     py_bind (as_float (subscript (Inr v2) 0)) (\<lambda>v20.
     py_bind (as_float (subscript (Inr v2) 1)) (\<lambda>v21.
       dist_body v10 v11 v20 v21))))))))))))"

subsection \<open>is_longer_trip\<close>

definition invalid_trip :: string where
  "invalid_trip = ''Invalid input to is_longer_trip! ''"

definition compare_trips :: "pyval \<Rightarrow> pyval \<Rightarrow> pyval \<Rightarrow> pyval \<Rightarrow> pyerr + bool" where
  "compare_trips a b c d =
     py_bind (dist_km a c) (\<lambda>d1.
     py_bind (dist_km c d) (\<lambda>d2.
     py_bind (dist_km d b) (\<lambda>d3.
       let xtrip = ((0.0 + d1) + d2) + d3 in
     py_bind (dist_km c a) (\<lambda>e1.
     py_bind (dist_km a b) (\<lambda>e2.
     py_bind (dist_km b d) (\<lambda>e3.
       let ytrip = ((0.0 + e1) + e2) + e3 in
       if xtrip > ytrip then Inr True else Inr False))))))"

definition is_longer_trip :: "pyval \<Rightarrow> pyval \<Rightarrow> pyerr + bool" where
  "is_longer_trip x y =
     elif_raise (type_is_not (Inr x) TTuple)
       (TypeError (invalid_trip @ ''Expected tuple in arg[0]'')) (
     elif_raise (len_is_not (Inr x) 2)
       (TypeError (invalid_trip @ ''Incorrect tuple size in arg[0]'')) (
     elif_raise (type_is_not (subscript (Inr x) 0) TTuple)
       (TypeError (invalid_trip @ ''Expected tuple in arg[0][0]'')) (
     elif_raise (len_is_not (subscript (Inr x) 0) 2)
       (TypeError (invalid_trip @ ''Incorrect tuple size in arg[0][0]'')) (
     elif_raise (type_is_not (subscript (subscript (Inr x) 0) 0) TFloat)
       (TypeError (invalid_trip @ ''Expected float in arg[0][0][0]'')) (
     elif_raise (type_is_not (subscript (subscript (Inr x) 0) 1) TFloat)
       (TypeError (invalid_trip @ ''Expected float in arg[0][0][0]'')) (
     elif_raise (type_is_not (subscript (Inr x) 1) TTuple)
       (TypeError (invalid_trip @ ''Expected tuple in arg[0][1]'')) (
     elif_raise (len_is_not (subscript (Inr x) 1) 2)
       (TypeError (invalid_trip @ ''Incorrect tuple size in arg[0][1]'')) (
     elif_raise (type_is_not (subscript (subscript (Inr x) 1) 0) TFloat)
       (TypeError (invalid_trip @ ''Expected float in arg[0][1][0]'')) (
     elif_raise (type_is_not (subscript (subscript (Inr x) 1) 1) TFloat)
       (TypeError (invalid_trip @ ''Expected float in arg[0][1][1]'')) (
     elif_raise (type_is_not (Inr y) TTuple)
       (TypeError (invalid_trip @ ''Expected tuple in arg[1]'')) (
     elif_raise (len_is_not (Inr y) 2)
       (TypeError (invalid_trip @ ''Incorrect tuple size in arg[1]'')) (
     elif_raise (type_is_not (subscript (Inr y) 0) TTuple)
       (TypeError (invalid_trip @ ''Expected tuple in arg[1][0]'')) (
     elif_raise (len_is_not (subscript (Inr y) 0) 2)
       (TypeError (invalid_trip @ ''Incorrect tuple size in arg[1][0]'')) (
     elif_raise (type_is_not (subscript (subscript (Inr y) 0) 0) TFloat)
       (TypeError (invalid_trip @ ''Expected float in arg[1][0][0]'')) (
     elif_raise (type_is_not (subscript (subscript (Inr y) 0) 1) TFloat)
       (TypeError (invalid_trip @ ''Expected float in arg[1][0][1]'')) (
     elif_raise (type_is_not (subscript (Inr y) 1) TTuple)
       (TypeError (invalid_trip @ ''Expected float in arg[1][1]'')) (
     elif_raise (len_is_not (Inr y) 2)
       (TypeError (invalid_trip @ ''Incorrect tuple size in arg[1][1]'')) (
     elif_raise (type_is_not (subscript (subscript (Inr y) 1) 0) TFloat)
       (TypeError (invalid_trip @ ''Expected float in arg[1][1][0]'')) (
     elif_raise (type_is_not (subscript (subscript (Inr y) 1) 1) TFloat)
       (TypeError (invalid_trip @ ''Expected float in arg[1][1][1]'')) (
     py_bind (subscript (Inr x) 0) (\<lambda>a.
     py_bind (subscript (Inr x) 1) (\<lambda>b.
     py_bind (subscript (Inr y) 0) (\<lambda>c.
     py_bind (subscript (Inr y) 1) (\<lambda>d.
       compare_trips a b c d))))))))))))))))))))))))"

subsection \<open>coordinate_to_float\<close>

definition invalid_coord :: string where
  "invalid_coord = ''Invalid input to coordinate_to_float! ''"

definition coordinate_to_float :: "pyval \<Rightarrow> pyval \<Rightarrow> pyval \<Rightarrow> pyval \<Rightarrow> pyerr + real" where
  "coordinate_to_float degrees minutes seconds sign =
     elif_raise (type_is_not (Inr degrees) TInt)
       (TypeError (invalid_coord @ ''Expected int in arg[0]'')) (
     elif_raise (type_is_not (Inr minutes) TInt)
       (TypeError (invalid_coord @ ''Expected int in arg[1]'')) (
     elif_raise (type_is_not (Inr seconds) TInt)
       (TypeError (invalid_coord @ ''Expected int in arg[2]'')) (
     elif_raise (type_is_not (Inr sign) TBool)
       (TypeError (invalid_coord @ ''Expected bool in arg[3]'')) (
     py_bind (as_float (Inr degrees)) (\<lambda>dg.
     py_bind (as_float (Inr minutes)) (\<lambda>mi.
     py_bind (as_float (Inr seconds)) (\<lambda>se.
       let ret = dg + 0.0;
           ret = ret + mi / 60.0;
           ret = ret + se / 3600.0
       in if sign = PyBool True then Inr ret else Inr (- ret))))))))"

subsection \<open>The tolerance test of the self-test harness\<close>

definition within_tolerance :: "real \<Rightarrow> real \<Rightarrow> bool" where
  "within_tolerance val target =
     (let tolerance = 0.001;
          bottom_bound = target - target * tolerance;
          top_bound = target + target * tolerance
      in if val > bottom_bound then (if val < top_bound then True else False) else False)"

section \<open>Well-formed inputs and the formula of the specification\<close>

text \<open>
  A well-formed point is a 2-tuple of floats (latitude, longitude) and a well-formed
  route a 2-tuple of points (source, destination).
\<close>

definition GeoPoint :: "real \<Rightarrow> real \<Rightarrow> pyval" where
  "GeoPoint lat lon = PyTuple [PyFloat lat, PyFloat lon]"


text \<open>
  The shapes the input checks are meant to admit, as predicates on arbitrary values.
\<close>

fun well_formed_point :: "pyval \<Rightarrow> bool" where
  "well_formed_point (PyTuple [PyFloat _, PyFloat _]) = True"
| "well_formed_point _ = False"

fun well_formed_route :: "pyval \<Rightarrow> bool" where
  "well_formed_route (PyTuple [p, q]) = (well_formed_point p \<and> well_formed_point q)"
| "well_formed_route _ = False"


section \<open>The haversine term\<close>

text \<open>
  The product of the two cosines is rewritten with the half sum and the half difference
  of the latitudes; the term \<open>a\<close> is then a convex combination of two squares, which
  keeps it in the unit interval whatever the latitudes and longitudes are.
\<close>

lemma cos_prod_half:
  fixes S D :: real
  shows "cos (S - D) * cos (S + D) = (cos S)\<^sup>2 - (sin D)\<^sup>2"
proof -
  have cS: "(sin S)\<^sup>2 = 1 - (cos S)\<^sup>2" by (rule sin_squared_eq)
  have cD: "(cos D)\<^sup>2 = 1 - (sin D)\<^sup>2" by (rule cos_squared_eq)
  have "cos (S - D) * cos (S + D) = (cos S * cos D + sin S * sin D) * (cos S * cos D - sin S * sin D)"
    by (simp only: cos_add cos_diff)
  also have "\<dots> = (cos S)\<^sup>2 * (cos D)\<^sup>2 - (sin S)\<^sup>2 * (sin D)\<^sup>2"
    by (simp add: power2_eq_square algebra_simps)
  also have "\<dots> = (cos S)\<^sup>2 * (1 - (sin D)\<^sup>2) - (1 - (cos S)\<^sup>2) * (sin D)\<^sup>2"
    by (simp only: cS cD)
  also have "\<dots> = (cos S)\<^sup>2 - (sin D)\<^sup>2"
    by (simp add: algebra_simps)
  finally show ?thesis .
qed

lemma half_chord_mix:
  "\<exists>t u w. 0 \<le> t \<and> t \<le> 1 \<and> 0 \<le> u \<and> u \<le> 1 \<and> 0 \<le> w \<and> w \<le> 1 \<and>
     half_chord_length_squared v10 v11 v20 v21 = (1 - t) * u + t * w"
proof -
  define S where "S = (radians v10 + radians v20) / 2"
  define D where "D = radians (v20 - v10) / 2"
  define t where "t = (sin (radians (v21 - v11) / 2))\<^sup>2"
  have p: "radians v10 = S - D" and q: "radians v20 = S + D"
    by (simp_all add: S_def D_def radians_def field_simps)
  have cp: "cos (radians v10) = cos (S - D)" and cq: "cos (radians v20) = cos (S + D)"
    by (simp_all only: p q)
  have "half_chord_length_squared v10 v11 v20 v21 =
          sin D * sin D + cos (S - D) * cos (S + D) *
          sin (radians (v21 - v11) / 2) * sin (radians (v21 - v11) / 2)"
    by (simp add: half_chord_length_squared_def cp cq D_def)
  also have "\<dots> = (sin D)\<^sup>2 + (cos (S - D) * cos (S + D)) * t"
    by (simp add: t_def power2_eq_square)
  also have "\<dots> = (sin D)\<^sup>2 + ((cos S)\<^sup>2 - (sin D)\<^sup>2) * t"
    by (simp only: cos_prod_half)
  also have "\<dots> = (1 - t) * (sin D)\<^sup>2 + t * (cos S)\<^sup>2"
    by (simp add: algebra_simps)
  finally have e: "half_chord_length_squared v10 v11 v20 v21 = (1 - t) * (sin D)\<^sup>2 + t * (cos S)\<^sup>2" .
  have "0 \<le> t" "t \<le> 1" by (simp_all add: t_def abs_square_le_1)
  moreover have "0 \<le> (sin D)\<^sup>2" "(sin D)\<^sup>2 \<le> 1" by (simp_all add: abs_square_le_1)
  moreover have "0 \<le> (cos S)\<^sup>2" "(cos S)\<^sup>2 \<le> 1" by (simp_all add: abs_square_le_1)
  ultimately show ?thesis using e by blast
qed

lemma convex_unit:
  fixes t u w :: real
  assumes "0 \<le> t" "t \<le> 1" "0 \<le> u" "u \<le> 1" "0 \<le> w" "w \<le> 1"
  shows "0 \<le> (1 - t) * u + t * w" and "(1 - t) * u + t * w \<le> 1"
proof -
  have a: "0 \<le> 1 - t" using assms by simp
  show "0 \<le> (1 - t) * u + t * w"
    using a assms by (intro add_nonneg_nonneg mult_nonneg_nonneg)
  have "(1 - t) * u \<le> (1 - t) * 1" using a assms by (intro mult_left_mono)
  moreover have "t * w \<le> t * 1" using assms by (intro mult_left_mono)
  ultimately show "(1 - t) * u + t * w \<le> 1" by simp
qed

lemma half_chord_nonneg: "0 \<le> half_chord_length_squared v10 v11 v20 v21"
  using half_chord_mix [of v10 v11 v20 v21] convex_unit(1) by metis

lemma half_chord_le_one: "half_chord_length_squared v10 v11 v20 v21 \<le> 1"
  using half_chord_mix [of v10 v11 v20 v21] convex_unit(2) by metis


lemma dist_body_value:
  "dist_body v10 v11 v20 v21 =
     Inr (volumetric_mean_radius_kilometers *
          (2 * atan2 (sqrt (half_chord_length_squared v10 v11 v20 v21))
                     (sqrt (1 - half_chord_length_squared v10 v11 v20 v21))))"
proof -
  have n: "\<not> half_chord_length_squared v10 v11 v20 v21 < 0"
    using half_chord_nonneg [of v10 v11 v20 v21] by simp
  have m: "\<not> 1 - half_chord_length_squared v10 v11 v20 v21 < 0"
    using half_chord_le_one [of v10 v11 v20 v21] by simp
  show ?thesis
    using n m
    by (simp add: dist_body_def Let_def py_bind_def math_sqrt_def half_chord_length_squared_def)
qed

lemma dist_GeoPoint:
  "dist_km (GeoPoint v10 v11) (GeoPoint v20 v21) = dist_body v10 v11 v20 v21"
  by (simp add: dist_km_def GeoPoint_def elif_raise_def py_bind_def)

lemma half_chord_sym:
  "half_chord_length_squared v20 v21 v10 v11 = half_chord_length_squared v10 v11 v20 v21"
proof -
  have a: "radians (v10 - v20) / 2 = - (radians (v20 - v10) / 2)"
    by (simp add: radians_def field_simps)
  have b: "radians (v11 - v21) / 2 = - (radians (v21 - v11) / 2)"
    by (simp add: radians_def field_simps)
  show ?thesis
    by (simp add: half_chord_length_squared_def a b)
qed

lemma half_chord_same: "half_chord_length_squared v0 v1 v0 v1 = 0"
  by (simp add: half_chord_length_squared_def radians_def)


section \<open>Properties of dist\<close>



text \<open>
  Claim C6.  \<^verbatim>\<open>dist\<close> is symmetric on well-formed points; in exact arithmetic the two
  results are equal.
\<close>

theorem dist_symmetric:
  "dist_km (GeoPoint lat1 lon1) (GeoPoint lat2 lon2) = dist_km (GeoPoint lat2 lon2) (GeoPoint lat1 lon1)"
  by (simp only: dist_GeoPoint dist_body_value half_chord_sym)

text \<open>
  Claim C7.  The distance of a well-formed point to itself is exactly zero.
\<close>

theorem dist_identity:
  "dist_km (GeoPoint lat lon) (GeoPoint lat lon) = Inr 0"
  by (simp add: dist_GeoPoint dist_body_value half_chord_same atan2_def)

section \<open>Properties of is_longer_trip\<close>

lemma dist_GeoPoint_value:
  "dist_km (GeoPoint v10 v11) (GeoPoint v20 v21) =
     Inr (volumetric_mean_radius_kilometers *
          (2 * atan2 (sqrt (half_chord_length_squared v10 v11 v20 v21))
                     (sqrt (1 - half_chord_length_squared v10 v11 v20 v21))))"
  by (simp only: dist_GeoPoint dist_body_value)





section \<open>Properties of coordinate_to_float\<close>


text \<open>
  Claim C9.  \<^verbatim>\<open>coordinate_to_float(40, 45, 6, True)\<close> lies within a tenth of a percent
  of 40.7517, by the tolerance test of the self-test harness.
\<close>

theorem coordinate_to_float_new_york:
  "\<exists>v. coordinate_to_float (PyInt 40) (PyInt 45) (PyInt 6) (PyBool True) = Inr v \<and>
       within_tolerance v 40.7517"
proof -
  have v: "coordinate_to_float (PyInt 40) (PyInt 45) (PyInt 6) (PyBool True) = Inr (24451 / 600)"
    by (simp add: coordinate_to_float_def elif_raise_def py_bind_def Let_def)
  have t: "within_tolerance (24451 / 600) 40.7517"
    by (simp add: within_tolerance_def Let_def)
  from v t show ?thesis by blast
qed

section \<open>The input checks\<close>

text \<open>
  The checks of \<^verbatim>\<open>dist\<close> and of \<^verbatim>\<open>coordinate_to_float\<close> reject every
  malformed argument with a \<^verbatim>\<open>TypeError\<close>, and so do the checks of
  \<^verbatim>\<open>is_longer_trip\<close> on its first route.
\<close>

lemma point_check_rejects:
  assumes "\<not> well_formed_point v"
  shows "\<exists>m. elif_raise (type_is_not (Inr v) TTuple) (TypeError m1) (
             elif_raise (len_is_not (Inr v) 2) (TypeError m2) (
             elif_raise (type_is_not (subscript (Inr v) 0) TFloat) (TypeError m3) (
             elif_raise (type_is_not (subscript (Inr v) 1) TFloat) (TypeError m4) rest)))
           = Inl (TypeError m)"
  using assms
  by (cases v rule: well_formed_point.cases) (simp_all add: elif_raise_def)

lemma point_check_accepts:
  assumes "well_formed_point v"
  shows "elif_raise (type_is_not (Inr v) TTuple) (TypeError m1) (
         elif_raise (len_is_not (Inr v) 2) (TypeError m2) (
         elif_raise (type_is_not (subscript (Inr v) 0) TFloat) (TypeError m3) (
         elif_raise (type_is_not (subscript (Inr v) 1) TFloat) (TypeError m4) rest)))
           = rest"
  using assms
  by (cases v rule: well_formed_point.cases) (simp_all add: elif_raise_def)

lemma dist_rejects_malformed:
  assumes "\<not> (well_formed_point v1 \<and> well_formed_point v2)"
  shows "\<exists>m. dist_km v1 v2 = Inl (TypeError m)"
proof (cases "well_formed_point v1")
  case False
  then show ?thesis unfolding dist_km_def by (rule point_check_rejects)
next
  case True
  with assms have "\<not> well_formed_point v2" by simp
  then show ?thesis unfolding dist_km_def point_check_accepts [OF True] by (rule point_check_rejects)
qed

lemma coordinate_to_float_rejects_malformed:
  assumes "\<not> (type_of degrees = TInt \<and> type_of minutes = TInt \<and> type_of seconds = TInt \<and> type_of sign = TBool)"
  shows "\<exists>m. coordinate_to_float degrees minutes seconds sign = Inl (TypeError m)"
  using assms by (auto simp: coordinate_to_float_def elif_raise_def)

lemma is_longer_trip_rejects_first:
  assumes "\<not> well_formed_route x"
  shows "\<exists>m. is_longer_trip x y = Inl (TypeError m)"
proof (cases x rule: well_formed_route.cases)
  case (1 p q)
  with assms have pq: "\<not> well_formed_point p \<or> \<not> well_formed_point q" by simp
  show ?thesis
  proof (cases "well_formed_point p")
    case False
    then show ?thesis unfolding 1 is_longer_trip_def
      by (cases p rule: well_formed_point.cases) (simp_all add: elif_raise_def)
  next
    case True
    then have "\<not> well_formed_point q" using pq by simp
    then show ?thesis using True unfolding 1 is_longer_trip_def
      by (cases p rule: well_formed_point.cases; cases q rule: well_formed_point.cases)
         (simp_all add: elif_raise_def)
  qed
qed (simp_all add: is_longer_trip_def elif_raise_def)

text \<open>
  Claim C3.  The check of the second route's destination tests \<^verbatim>\<open>len(y)\<close> where
  the checks of the other three points test the length of the point itself, so the
  arity of \<^verbatim>\<open>y[1]\<close> is never checked.  With a one-element destination the next
  check reads \<^verbatim>\<open>y[1][1]\<close> and the call ends in an \<^verbatim>\<open>IndexError\<close>, not in the
  \<^verbatim>\<open>TypeError\<close> of the input check.
\<close>

theorem is_longer_trip_undersized_second_destination:
  "is_longer_trip (PyTuple [PyTuple [PyFloat 1, PyFloat 2], PyTuple [PyFloat 3, PyFloat 4]])
                  (PyTuple [PyTuple [PyFloat 1, PyFloat 2], PyTuple [PyFloat 3]]) =
     Inl (IndexError ''tuple index out of range'')"
  by (simp add: is_longer_trip_def elif_raise_def py_bind_def)

text \<open>
  With a three-element destination every check passes; the first distance is computed
  and the error is raised only by the check inside the second call of \<^verbatim>\<open>dist\<close>.
\<close>

lemma is_longer_trip_oversized_second_destination:
  "is_longer_trip (PyTuple [PyTuple [PyFloat 1, PyFloat 2], PyTuple [PyFloat 3, PyFloat 4]])
                  (PyTuple [PyTuple [PyFloat 1, PyFloat 2], PyTuple [PyFloat 3, PyFloat 4, PyFloat 5]]) =
     Inl (TypeError ''Invalid input to dist! Incorrect tuple size in arg[1]'')"
proof -
  obtain d1 where d1: "dist_km (PyTuple [PyFloat 1, PyFloat 2]) (PyTuple [PyFloat 1, PyFloat 2]) = Inr d1"
    using dist_GeoPoint_value [of 1 2 1 2] by (simp add: GeoPoint_def)
  have d2: "dist_km (PyTuple [PyFloat 1, PyFloat 2]) (PyTuple [PyFloat 3, PyFloat 4, PyFloat 5]) =
              Inl (TypeError ''Invalid input to dist! Incorrect tuple size in arg[1]'')"
    by (simp add: dist_km_def elif_raise_def invalid_dist_def)
  have v: "is_longer_trip (PyTuple [PyTuple [PyFloat 1, PyFloat 2], PyTuple [PyFloat 3, PyFloat 4]])
             (PyTuple [PyTuple [PyFloat 1, PyFloat 2], PyTuple [PyFloat 3, PyFloat 4, PyFloat 5]]) =
           compare_trips (PyTuple [PyFloat 1, PyFloat 2]) (PyTuple [PyFloat 3, PyFloat 4])
             (PyTuple [PyFloat 1, PyFloat 2]) (PyTuple [PyFloat 3, PyFloat 4, PyFloat 5])"
    by (simp add: is_longer_trip_def elif_raise_def py_bind_def)
  show ?thesis
    unfolding v compare_trips_def by (simp only: d1 d2 py_bind_def sum.case)
qed

end
